theory Spec2Isabelle
  imports Complex_Main "HOL-Library.AList"
begin

section \<open>Values shared by the engine and the Python wrapper\<close>

text \<open>
  The enumerations, exceptions and the class \<^verbatim>\<open>Resource\<close> below are those the package
  imports from its compiled extension (\<^verbatim>\<open>__init__.py\<close>); the extension's tests list
  their values. Identifiers and quantities are Python integers.
\<close>

type_synonym AgentId = int
type_synonym ResourceTypeId = int
type_synonym ResourceQuantity = int

datatype RequestStatus = Pending | Granted | Denied | TimedOut | Cancelled

datatype ResourceCategory =
  ApiRateLimit | TokenBudget | ToolSlot | MemoryPool | DatabaseConn
  | GpuCompute | FileHandle | NetworkSocket | Custom

text \<open>
  The exceptions a call can raise. The classes of the \<^verbatim>\<open>agentguard\<close> package
  (\<^verbatim>\<open>__init__.py\<close>), Python's \<^verbatim>\<open>KeyError\<close> and \<^verbatim>\<open>RuntimeError\<close>, and
  \<open>UserError\<close> for whatever the body of a \<^verbatim>\<open>with\<close> block raises. Messages are
  not modelled.
\<close>

datatype py_error =
  AgentGuardError | AgentNotFoundError | ResourceNotFoundError | InvalidRequestError
  | MaxClaimExceededError | ResourceCapacityExceededError | QueueFullError
  | AgentAlreadyRegisteredError | KeyError | RuntimeError | UserError string

datatype timedelta = Seconds rat

text \<open>
  Modelled from the spec: a resource (section 3) has an id, a name, a category, a total
  capacity \<open>C\<close> and its available units \<open>A\<close>.
\<close>

record Resource =
  res_id :: ResourceTypeId
  res_name :: string
  res_category :: ResourceCategory
  total_capacity :: ResourceQuantity
  res_available :: ResourceQuantity

text \<open>
  Modelled from the spec: \<^verbatim>\<open>ag.Resource(rid, name, cat, capacity)\<close>, the constructor
  the wrapper calls; a new resource is wholly available.
\<close>

definition new_Resource ::
  "ResourceTypeId \<Rightarrow> string \<Rightarrow> ResourceCategory \<Rightarrow> ResourceQuantity \<Rightarrow> Resource" where
  "new_Resource rid name cat capacity =
     \<lparr>res_id = rid, res_name = name, res_category = cat,
      total_capacity = capacity, res_available = capacity\<rparr>"

section \<open>The wrapper \<^verbatim>\<open>AgentGuard\<close> (\<^verbatim>\<open>langgraph/guard.py\<close>)\<close>

text \<open>
  The wrapper calls the methods of \<^verbatim>\<open>ag.ResourceManager\<close>, a class of the compiled
  extension. The wrapper is modelled over any manager: \<open>'m\<close> is the manager's state and
  each field of \<open>manager_ops\<close> is one method, giving what the call raises or returns and
  the state it leaves.
\<close>

record 'm manager_ops =
  mgr_register_resource :: "Resource \<Rightarrow> 'm \<Rightarrow> (py_error + unit) \<times> 'm"
  mgr_request_resources ::
    "AgentId \<Rightarrow> ResourceTypeId \<Rightarrow> ResourceQuantity \<Rightarrow> timedelta option \<Rightarrow> 'm
       \<Rightarrow> (py_error + RequestStatus) \<times> 'm"
  mgr_request_resources_adaptive ::
    "AgentId \<Rightarrow> ResourceTypeId \<Rightarrow> ResourceQuantity \<Rightarrow> timedelta option \<Rightarrow> 'm
       \<Rightarrow> (py_error + RequestStatus) \<times> 'm"
  mgr_request_resources_batch ::
    "AgentId \<Rightarrow> (ResourceTypeId \<times> ResourceQuantity) list \<Rightarrow> timedelta option \<Rightarrow> 'm
       \<Rightarrow> (py_error + RequestStatus) \<times> 'm"
  mgr_release_resources ::
    "AgentId \<Rightarrow> ResourceTypeId \<Rightarrow> ResourceQuantity \<Rightarrow> 'm \<Rightarrow> (py_error + unit) \<times> 'm"
  mgr_report_progress :: "AgentId \<Rightarrow> string \<Rightarrow> rat \<Rightarrow> 'm \<Rightarrow> (py_error + unit) \<times> 'm"

record 'm AgentGuard =
  manager :: 'm
  resource_names :: "string \<rightharpoonup> ResourceTypeId"
  next_resource_id :: int
  started :: bool

definition CATEGORY_MAP :: "string \<rightharpoonup> ResourceCategory" where
  "CATEGORY_MAP =
     [''api_rate_limit'' \<mapsto> ApiRateLimit, ''token_budget'' \<mapsto> TokenBudget,
      ''tool_slot'' \<mapsto> ToolSlot, ''memory_pool'' \<mapsto> MemoryPool,
      ''database_conn'' \<mapsto> DatabaseConn, ''gpu_compute'' \<mapsto> GpuCompute,
      ''file_handle'' \<mapsto> FileHandle, ''network_socket'' \<mapsto> NetworkSocket,
      ''custom'' \<mapsto> Custom]"

text \<open>
  \<^verbatim>\<open>add_resource\<close>: a known name returns its id at once; otherwise the next id is
  taken (and the counter moved on) before \<^verbatim>\<open>register_resource\<close> is called, and the
  name is stored only when that call returns.
\<close>

definition add_resource ::
  "'m manager_ops \<Rightarrow> string \<Rightarrow> ResourceQuantity \<Rightarrow> string \<Rightarrow> 'm AgentGuard
     \<Rightarrow> (py_error + ResourceTypeId) \<times> 'm AgentGuard" where
  "add_resource ops name capacity category g =
     (case resource_names g name of
        Some rid \<Rightarrow> (Inr rid, g)
      | None \<Rightarrow>
          (let rid = next_resource_id g;
               g1 = g\<lparr>next_resource_id := next_resource_id g + 1\<rparr>;
               cat = (case CATEGORY_MAP category of Some c \<Rightarrow> c | None \<Rightarrow> Custom);
               (r, m1) = mgr_register_resource ops (new_Resource rid name cat capacity) (manager g1)
           in case r of
                Inl e \<Rightarrow> (Inl e, g1\<lparr>manager := m1\<rparr>)
              | Inr _ \<Rightarrow>
                  (Inr rid, g1\<lparr>manager := m1, resource_names := (resource_names g1)(name \<mapsto> rid)\<rparr>)))"

text \<open>\<^verbatim>\<open>_resolve_resource\<close> takes a name or an integer id.\<close>

datatype name_or_id = Name string | Id int

definition resolve_resource :: "'m AgentGuard \<Rightarrow> name_or_id \<Rightarrow> py_error + ResourceTypeId" where
  "resolve_resource g x =
     (case x of
        Id i \<Rightarrow> Inr i
      | Name n \<Rightarrow> (case resource_names g n of Some rid \<Rightarrow> Inr rid | None \<Rightarrow> Inl KeyError))"





text \<open>\<^verbatim>\<open>AgentGuard.report_progress\<close> passes the call on to the manager.\<close>

definition report_progress ::
  "'m manager_ops \<Rightarrow> AgentId \<Rightarrow> string \<Rightarrow> rat \<Rightarrow> 'm AgentGuard
     \<Rightarrow> (py_error + unit) \<times> 'm AgentGuard" where
  "report_progress ops agent_id metric v g =
     (let (r, m1) = mgr_report_progress ops agent_id metric v (manager g)
      in (r, g\<lparr>manager := m1\<rparr>))"

section \<open>The callback handler (\<^verbatim>\<open>langgraph/callback.py\<close>)\<close>

text \<open>
  A \<^verbatim>\<open>run_id\<close> is any Python value: \<^verbatim>\<open>None\<close> (the default), a string, or a UUID
  (what LangChain passes). \<^verbatim>\<open>None\<close> and the empty string are falsy; a UUID is always
  truthy and \<^verbatim>\<open>str\<close> gives its text.
\<close>

datatype run_id = PyNone | PyStr string | PyUUID string

fun truthy :: "run_id \<Rightarrow> bool" where
  "truthy PyNone = False"
| "truthy (PyStr s) = (s \<noteq> [])"
| "truthy (PyUUID u) = True"

fun str :: "run_id \<Rightarrow> string" where
  "str PyNone = ''None''"
| "str (PyStr s) = s"
| "str (PyUUID u) = u"

record 'm AgentGuardCallbackHandler =
  guard :: "'m AgentGuard"
  handler_agent_id :: AgentId
  tool_resources :: "string \<rightharpoonup> (string \<times> ResourceQuantity) list"
  handler_timeout :: "rat option"
  handler_report_progress :: bool
  active :: "string \<rightharpoonup> (string \<times> ResourceQuantity) list"
  step_count :: int

text \<open>
  The loop of \<^verbatim>\<open>on_tool_start\<close>: each resource of the tool is resolved and requested
  in turn; a status other than \<open>Granted\<close> raises \<^verbatim>\<open>RuntimeError\<close> and leaves the loop.
\<close>

fun request_each ::
  "'m manager_ops \<Rightarrow> 'm AgentGuard \<Rightarrow> AgentId \<Rightarrow> timedelta option
     \<Rightarrow> (string \<times> ResourceQuantity) list \<Rightarrow> 'm \<Rightarrow> (py_error + unit) \<times> 'm" where
  "request_each ops g agent_id dur [] m = (Inr (), m)"
| "request_each ops g agent_id dur ((rname, qty) # rest) m =
     (case resolve_resource g (Name rname) of
        Inl e \<Rightarrow> (Inl e, m)
      | Inr rid \<Rightarrow>
          (case mgr_request_resources ops agent_id rid qty dur m of
             (Inl e, m1) \<Rightarrow> (Inl e, m1)
           | (Inr status, m1) \<Rightarrow>
               if status \<noteq> Granted then (Inl RuntimeError, m1)
               else request_each ops g agent_id dur rest m1))"

text \<open>
  \<^verbatim>\<open>on_tool_start\<close>; \<open>serialized\<close> is the dict whose \<^verbatim>\<open>"name"\<close> entry names the
  tool. The key of the run is \<^verbatim>\<open>str(run_id) if run_id else tool_name\<close>, and
  \<^verbatim>\<open>self._timeout\<close> is tested for truth, so that a timeout of zero gives no duration.
\<close>

definition on_tool_start ::
  "'m manager_ops \<Rightarrow> (string \<rightharpoonup> string) \<Rightarrow> string \<Rightarrow> run_id
     \<Rightarrow> 'm AgentGuardCallbackHandler \<Rightarrow> (py_error + unit) \<times> 'm AgentGuardCallbackHandler" where
  "on_tool_start ops serialized input_str rid h =
     (let tool_name = (case serialized ''name'' of Some n \<Rightarrow> n | None \<Rightarrow> []);
          resources = (case tool_resources h tool_name of Some d \<Rightarrow> d | None \<Rightarrow> [])
      in if resources = [] then (Inr (), h)
         else
           (let key = (if truthy rid then str rid else tool_name);
                dur = (case handler_timeout h of
                         None \<Rightarrow> None
                       | Some t \<Rightarrow> if t \<noteq> 0 then Some (Seconds t) else None);
                (r, m1) = request_each ops (guard h) (handler_agent_id h) dur resources
                            (manager (guard h));
                h1 = h\<lparr>guard := (guard h)\<lparr>manager := m1\<rparr>\<rparr>
            in case r of
                 Inl e \<Rightarrow> (Inl e, h1)
               | Inr _ \<Rightarrow> (Inr (), h1\<lparr>active := (active h1)(key \<mapsto> resources)\<rparr>)))"

text \<open>
  The loop of \<^verbatim>\<open>on_tool_end\<close> resolves and releases each popped entry in turn.
\<close>

fun release_named ::
  "'m manager_ops \<Rightarrow> 'm AgentGuard \<Rightarrow> AgentId \<Rightarrow> (string \<times> ResourceQuantity) list \<Rightarrow> 'm
     \<Rightarrow> (py_error + unit) \<times> 'm" where
  "release_named ops g agent_id [] m = (Inr (), m)"
| "release_named ops g agent_id ((rname, qty) # rest) m =
     (case resolve_resource g (Name rname) of
        Inl e \<Rightarrow> (Inl e, m)
      | Inr rid \<Rightarrow>
          (case mgr_release_resources ops agent_id rid qty m of
             (Inl e, m1) \<Rightarrow> (Inl e, m1)
           | (Inr _, m1) \<Rightarrow> release_named ops g agent_id rest m1))"

text \<open>
  \<^verbatim>\<open>on_tool_end\<close>: the key is \<^verbatim>\<open>str(run_id) if run_id else ""\<close>; the entry is popped
  from the active map (under the lock) before anything is released; then the step is
  counted and reported when progress reporting is on.
\<close>

definition on_tool_end ::
  "'m manager_ops \<Rightarrow> string \<Rightarrow> run_id
     \<Rightarrow> 'm AgentGuardCallbackHandler \<Rightarrow> (py_error + unit) \<times> 'm AgentGuardCallbackHandler" where
  "on_tool_end ops output rid h =
     (let key = (if truthy rid then str rid else []);
          resources = (case active h key of Some d \<Rightarrow> d | None \<Rightarrow> []);
          h1 = h\<lparr>active := (active h)(key := None)\<rparr>;
          (r, m1) = release_named ops (guard h1) (handler_agent_id h1) resources (manager (guard h1));
          h2 = h1\<lparr>guard := (guard h1)\<lparr>manager := m1\<rparr>\<rparr>
      in case r of
           Inl e \<Rightarrow> (Inl e, h2)
         | Inr _ \<Rightarrow>
             if handler_report_progress h2 then
               (let h3 = h2\<lparr>step_count := step_count h2 + 1\<rparr>;
                    (p, g4) = report_progress ops (handler_agent_id h3) ''tool_calls''
                                (of_int (step_count h3)) (guard h3)
                in (p, h3\<lparr>guard := g4\<rparr>))
             else (Inr (), h2))"

definition on_tool_error ::
  "'m manager_ops \<Rightarrow> py_error \<Rightarrow> run_id
     \<Rightarrow> 'm AgentGuardCallbackHandler \<Rightarrow> (py_error + unit) \<times> 'm AgentGuardCallbackHandler" where
  "on_tool_error ops error rid h = on_tool_end ops [] rid h"

section \<open>The safety checker\<close>

text \<open>
  The engine (\<^verbatim>\<open>agentguard._agentguard\<close>, a compiled extension) is not among the
  sources; only its Python bindings' tests and callers are. Its parts are modelled from
  the specification (section 4), each definition saying so.

  A Python dict with integer keys is an association list whose first entry for a key is
  the entry of the dict; a key that is absent stands for the quantity 0.
\<close>

text \<open>
  Modelled from the spec: the input \<open>(total[r], available[r], allocation[a][r],
  max_need[a][r])\<close> and the result of the checker (4.1), with the field names the
  extension's tests use.
\<close>

type_synonym quantities = "(ResourceTypeId \<times> ResourceQuantity) list"

record SafetyCheckInput =
  total :: quantities
  available :: quantities
  allocation :: "(AgentId \<times> quantities) list"
  max_need :: "(AgentId \<times> quantities) list"

record SafetyCheckResult =
  is_safe :: bool
  safe_sequence :: "AgentId list"
  reason :: string

text \<open>Modelled from the spec: the entries of the tables; an absent entry is 0.\<close>

definition quantity_of :: "quantities \<Rightarrow> ResourceTypeId \<Rightarrow> ResourceQuantity" where
  "quantity_of d r = (case map_of d r of None \<Rightarrow> 0 | Some q \<Rightarrow> q)"

definition row_of :: "(AgentId \<times> quantities) list \<Rightarrow> AgentId \<Rightarrow> quantities" where
  "row_of t a = (case map_of t a of None \<Rightarrow> [] | Some d \<Rightarrow> d)"

text \<open>Modelled from the spec: \<open>need[a][r] = max_need[a][r] - allocation[a][r]\<close> (4.1).\<close>

definition need :: "SafetyCheckInput \<Rightarrow> AgentId \<Rightarrow> ResourceTypeId \<Rightarrow> ResourceQuantity" where
  "need inp a r = quantity_of (row_of (max_need inp) a) r - quantity_of (row_of (allocation inp) a) r"

text \<open>
  Modelled from the spec: the agents of an input, in ascending id, are the keys of its
  allocation and maximum tables; its resources are the keys of every table and row.
\<close>

definition input_agents :: "SafetyCheckInput \<Rightarrow> AgentId list" where
  "input_agents inp = sort (remdups (map fst (allocation inp) @ map fst (max_need inp)))"

definition input_resources :: "SafetyCheckInput \<Rightarrow> ResourceTypeId list" where
  "input_resources inp =
     remdups (map fst (total inp) @ map fst (available inp)
              @ concat (map (\<lambda>a. map fst (row_of (allocation inp) a)) (input_agents inp))
              @ concat (map (\<lambda>a. map fst (row_of (max_need inp) a)) (input_agents inp)))"

text \<open>Modelled from the spec: an agent can finish when \<open>need[a][r] \<le> work[r]\<close> for all \<open>r\<close>.\<close>

definition can_finish :: "SafetyCheckInput \<Rightarrow> (ResourceTypeId \<Rightarrow> ResourceQuantity) \<Rightarrow> AgentId \<Rightarrow> bool" where
  "can_finish inp work a = list_all (\<lambda>r. need inp a r \<le> work r) (input_resources inp)"

text \<open>Modelled from the spec: finishing \<open>a\<close> sets \<open>work[r] += allocation[a][r]\<close>.\<close>

definition give_back ::
  "SafetyCheckInput \<Rightarrow> (ResourceTypeId \<Rightarrow> ResourceQuantity) \<Rightarrow> AgentId
     \<Rightarrow> (ResourceTypeId \<Rightarrow> ResourceQuantity)" where
  "give_back inp work a = (\<lambda>r. work r + quantity_of (row_of (allocation inp) a) r)"

text \<open>
  Modelled from the spec: the Banker's loop (4.1). \<open>finish[a]\<close> is membership of \<open>a\<close> in
  the sequence built so far; each round takes the first agent, in ascending id, that has
  not finished and can, and the loop stops when there is none.
\<close>

function bankers_loop ::
  "SafetyCheckInput \<Rightarrow> (ResourceTypeId \<Rightarrow> ResourceQuantity) \<Rightarrow> AgentId list \<Rightarrow> AgentId list" where
  "bankers_loop inp work seq =
     (case find (\<lambda>a. a \<notin> set seq \<and> can_finish inp work a) (input_agents inp) of
        None \<Rightarrow> seq
      | Some a \<Rightarrow> bankers_loop inp (give_back inp work a) (seq @ [a]))"
  by pat_completeness auto
termination
proof (relation "measure (\<lambda>(inp, work, seq). length (filter (\<lambda>a. a \<notin> set seq) (input_agents inp)))")
  show "wf (measure (\<lambda>(inp, work, seq). length (filter (\<lambda>a. a \<notin> set seq) (input_agents inp))))"
    by simp
next
  fix inp :: SafetyCheckInput and work :: "ResourceTypeId \<Rightarrow> ResourceQuantity"
    and seq :: "AgentId list" and a :: AgentId
  assume "find (\<lambda>a. a \<notin> set seq \<and> can_finish inp work a) (input_agents inp) = Some a"
  then have mem: "a \<in> set (input_agents inp)" and fresh: "a \<notin> set seq"
    by (auto simp: find_Some_iff)
  define ys where "ys = filter (\<lambda>b. b \<notin> set seq) (input_agents inp)"
  have split: "filter (\<lambda>b. b \<notin> set (seq @ [a])) (input_agents inp) = filter (\<lambda>b. b \<noteq> a) ys"
    unfolding ys_def by (simp add: conj_commute)
  have "a \<in> set ys"
    unfolding ys_def using mem fresh by simp
  then have "length (filter (\<lambda>b. b \<noteq> a) ys) < length ys"
    by (rule length_filter_less) simp
  then have "length (filter (\<lambda>b. b \<notin> set (seq @ [a])) (input_agents inp))
          < length (filter (\<lambda>b. b \<notin> set seq) (input_agents inp))"
    unfolding split unfolding ys_def .
  then show "((inp, give_back inp work a, seq @ [a]), (inp, work, seq))
          \<in> measure (\<lambda>(inp, work, seq). length (filter (\<lambda>a. a \<notin> set seq) (input_agents inp)))"
    by simp
qed

text \<open>Modelled from the spec: a negative need is reported unsafe (4.1).\<close>

definition negative_need :: "SafetyCheckInput \<Rightarrow> bool" where
  "negative_need inp =
     list_ex (\<lambda>a. list_ex (\<lambda>r. need inp a r < 0) (input_resources inp)) (input_agents inp)"

text \<open>
  Modelled from the spec: \<open>check_safety\<close> (4.1) starts the loop from \<open>work = available\<close>
  and nobody finished; the state is safe iff every agent finishes.
\<close>

definition check_safety :: "SafetyCheckInput \<Rightarrow> SafetyCheckResult" where
  "check_safety inp =
     (if negative_need inp
      then \<lparr>is_safe = False, safe_sequence = [], reason = ''negative need''\<rparr>
      else
        (let seq = bankers_loop inp (quantity_of (available inp)) []
         in if list_all (\<lambda>a. a \<in> set seq) (input_agents inp)
            then \<lparr>is_safe = True, safe_sequence = seq, reason = ''safe''\<rparr>
            else \<lparr>is_safe = False, safe_sequence = seq, reason = ''no agent can finish''\<rparr>))"

text \<open>
  Modelled from the spec: \<open>check_hypothetical\<close> (4.1) is unsafe if \<open>q > available[r]\<close> or
  \<open>q > need[a][r]\<close>; otherwise it is the safety check after \<open>available[r] -= q\<close> and
  \<open>allocation[a][r] += q\<close>.
\<close>

definition grant_in_input ::
  "SafetyCheckInput \<Rightarrow> AgentId \<Rightarrow> ResourceTypeId \<Rightarrow> ResourceQuantity \<Rightarrow> SafetyCheckInput" where
  "grant_in_input inp a r q =
     inp\<lparr>available := AList.update r (quantity_of (available inp) r - q) (available inp),
         allocation := AList.update a
            (AList.update r (quantity_of (row_of (allocation inp) a) r + q) (row_of (allocation inp) a))
            (allocation inp)\<rparr>"

definition check_hypothetical ::
  "SafetyCheckInput \<Rightarrow> AgentId \<Rightarrow> ResourceTypeId \<Rightarrow> ResourceQuantity \<Rightarrow> SafetyCheckResult" where
  "check_hypothetical inp a r q =
     (if q > quantity_of (available inp) r
      then \<lparr>is_safe = False, safe_sequence = [], reason = ''insufficient availability''\<rparr>
      else if q > need inp a r
      then \<lparr>is_safe = False, safe_sequence = [], reason = ''exceeds need''\<rparr>
      else check_safety (grant_in_input inp a r q))"

text \<open>
  Modelled from the spec: the work vector after the agents of a sequence have finished
  in turn, starting from \<open>work = available\<close> (4.1).
\<close>

definition work_after :: "SafetyCheckInput \<Rightarrow> AgentId list \<Rightarrow> (ResourceTypeId \<Rightarrow> ResourceQuantity)" where
  "work_after inp seq = foldl (give_back inp) (quantity_of (available inp)) seq"

text \<open>
  The state of the engine's own tests of the checker: a total of 10 of resource 1, agent
  0 holding 3 of at most 7, agent 1 holding 2 of at most 4, and 5 available.
\<close>

definition base_state :: SafetyCheckInput where
  "base_state =
     \<lparr>total = [(1, 10)], available = [(1, 5)],
      allocation = [(0, [(1, 3)]), (1, [(1, 2)])],
      max_need = [(0, [(1, 7)]), (1, [(1, 4)])]\<rparr>"

text \<open>
  Modelled from the spec: the tie-break of 4.1: among the agents that have not finished
  and can finish with the work at hand, the one chosen has the smallest id.
\<close>

definition chosen ::
  "SafetyCheckInput \<Rightarrow> (ResourceTypeId \<Rightarrow> ResourceQuantity) \<Rightarrow> AgentId list \<Rightarrow> AgentId \<Rightarrow> bool" where
  "chosen inp work fin a =
     (a \<in> set (input_agents inp) \<and> a \<notin> set fin \<and> can_finish inp work a
      \<and> (\<forall>b \<in> set (input_agents inp). b \<notin> set fin \<and> can_finish inp work b \<longrightarrow> a \<le> b))"

text \<open>
  Modelled from the spec: the completion check of section 8: a permutation of the agents
  in which each agent can finish with what those before it have given back.
\<close>

definition completes :: "SafetyCheckInput \<Rightarrow> AgentId list \<Rightarrow> bool" where
  "completes inp p =
     (distinct p \<and> set p = set (input_agents inp)
      \<and> (\<forall>i < length p. can_finish inp (work_after inp (take i p)) (p ! i)))"

text \<open>
  The unsafe state of the same tests (agents holding 5 and 4 of at most 10 each, 1
  available), and the base state with agent 0 holding more than its maximum.
\<close>

definition unsafe_state :: SafetyCheckInput where
  "unsafe_state =
     \<lparr>total = [(1, 10)], available = [(1, 1)],
      allocation = [(0, [(1, 5)]), (1, [(1, 4)])],
      max_need = [(0, [(1, 10)]), (1, [(1, 10)])]\<rparr>"

definition over_state :: SafetyCheckInput where
  "over_state = base_state\<lparr>allocation := [(0, [(1, 8)]), (1, [(1, 2)])]\<rparr>"

section \<open>The resource manager\<close>

text \<open>
  Modelled from the spec: the data model of section 3. An agent has a name, a priority,
  its declared maxima \<open>M[r]\<close> and its allocation \<open>H[r]\<close>; a request has an id, an agent,
  the quantities it asks for (one entry, or the map of a batch) and its timeout; the
  manager owns the resources, the agents, the queue of pending requests and the
  counters of ids. Of the configuration (section 6) the fields the operations read.
\<close>

record Agent =
  a_id :: AgentId
  a_name :: string
  a_priority :: int
  a_max_needs :: quantities
  a_allocation :: quantities

text \<open>
  Modelled from the spec: \<^verbatim>\<open>ag.Agent(id, name, priority)\<close> and
  \<^verbatim>\<open>declare_max_need\<close> (section 3, Agent); a new agent holds nothing and has declared
  nothing.
\<close>

definition new_Agent :: "AgentId \<Rightarrow> string \<Rightarrow> int \<Rightarrow> Agent" where
  "new_Agent i name priority =
     \<lparr>a_id = i, a_name = name, a_priority = priority, a_max_needs = [],
      a_allocation = []\<rparr>"

definition declare_max_need :: "ResourceTypeId \<Rightarrow> ResourceQuantity \<Rightarrow> Agent \<Rightarrow> Agent" where
  "declare_max_need r q ag = ag\<lparr>a_max_needs := AList.update r q (a_max_needs ag)\<rparr>"

record ResourceRequest =
  request_id :: int
  req_agent :: AgentId
  req_items :: quantities
  req_timeout :: "timedelta option"

record Config =
  max_agents :: nat
  default_request_timeout :: "timedelta option"
  pending_queue_capacity :: nat
  unique_agent_names :: bool

record ResourceManager =
  config :: Config
  resources :: "(ResourceTypeId \<times> Resource) list"
  agents :: "(AgentId \<times> Agent) list"
  next_agent_id :: AgentId
  pending :: "ResourceRequest list"
  next_request_id :: int

text \<open>Modelled from the spec: a new manager owns no resource, agent or request.\<close>

definition new_ResourceManager :: "Config \<Rightarrow> ResourceManager" where
  "new_ResourceManager c =
     \<lparr>config = c, resources = [], agents = [], next_agent_id = 1, pending = [],
      next_request_id = 1\<rparr>"

text \<open>
  Modelled from the spec: \<open>A[r]\<close>, \<open>C[r]\<close>, \<open>H[a,r]\<close> and \<open>M[a,r]\<close> of section 3, read
  off the tables; an absent entry is 0.
\<close>

definition available_of :: "ResourceTypeId \<Rightarrow> ResourceManager \<Rightarrow> ResourceQuantity" where
  "available_of r m = (case map_of (resources m) r of None \<Rightarrow> 0 | Some res \<Rightarrow> res_available res)"

definition capacity_of :: "ResourceTypeId \<Rightarrow> ResourceManager \<Rightarrow> ResourceQuantity" where
  "capacity_of r m = (case map_of (resources m) r of None \<Rightarrow> 0 | Some res \<Rightarrow> total_capacity res)"

definition held :: "AgentId \<Rightarrow> ResourceTypeId \<Rightarrow> ResourceManager \<Rightarrow> ResourceQuantity" where
  "held a r m = (case map_of (agents m) a of None \<Rightarrow> 0 | Some ag \<Rightarrow> quantity_of (a_allocation ag) r)"

definition declared_max :: "AgentId \<Rightarrow> ResourceTypeId \<Rightarrow> ResourceManager \<Rightarrow> ResourceQuantity" where
  "declared_max a r m = (case map_of (agents m) a of None \<Rightarrow> 0 | Some ag \<Rightarrow> quantity_of (a_max_needs ag) r)"

text \<open>Modelled from the spec: \<open>register_resource\<close> fails if the id already exists (4.2).\<close>

definition register_resource :: "Resource \<Rightarrow> ResourceManager \<Rightarrow> (py_error + unit) \<times> ResourceManager" where
  "register_resource res m =
     (if res_id res \<in> fst ` set (resources m) then (Inl AgentGuardError, m)
      else (Inr (), m\<lparr>resources := resources m @ [(res_id res, res)]\<rparr>))"

text \<open>
  Modelled from the spec: \<open>register_agent\<close> (4.2, 6, 7) fails at the cap on agents, on a
  duplicate name when uniqueness is enforced, and on a declared maximum above a
  capacity; it assigns a fresh id and the agent starts holding nothing.
\<close>

definition register_agent :: "Agent \<Rightarrow> ResourceManager \<Rightarrow> (py_error + AgentId) \<times> ResourceManager" where
  "register_agent ag m =
     (if length (agents m) \<ge> max_agents (config m) then (Inl AgentGuardError, m)
      else if unique_agent_names (config m) \<and> a_name ag \<in> (\<lambda>(a, x). a_name x) ` set (agents m)
      then (Inl AgentAlreadyRegisteredError, m)
      else if list_ex (\<lambda>(r, q). q > capacity_of r m) (a_max_needs ag)
      then (Inl ResourceCapacityExceededError, m)
      else
        (let i = next_agent_id m
         in (Inr i, m\<lparr>agents := agents m @ [(i, ag\<lparr>a_id := i, a_allocation := []\<rparr>)],
                       next_agent_id := i + 1\<rparr>)))"

text \<open>
  Modelled from the spec: the allocation table is mutated atomically with \<open>A[r]\<close>
  (section 3): \<open>transfer a r x\<close> moves \<open>x\<close> units of \<open>r\<close> from availability to agent
  \<open>a\<close> (a grant), or back when \<open>x\<close> is negative (a release).
\<close>

definition transfer ::
  "AgentId \<Rightarrow> ResourceTypeId \<Rightarrow> ResourceQuantity \<Rightarrow> ResourceManager \<Rightarrow> ResourceManager" where
  "transfer a r x m =
     m\<lparr>resources := AList.map_entry r (\<lambda>res. res\<lparr>res_available := res_available res - x\<rparr>) (resources m),
       agents := AList.map_entry a
          (\<lambda>ag. ag\<lparr>a_allocation := AList.update r (quantity_of (a_allocation ag) r + x) (a_allocation ag)\<rparr>)
          (agents m)\<rparr>"

text \<open>Modelled from the spec: the snapshot the manager hands to the safety checker (4.1).\<close>

definition safety_input :: "ResourceManager \<Rightarrow> SafetyCheckInput" where
  "safety_input m =
     \<lparr>total = map (\<lambda>(r, res). (r, total_capacity res)) (resources m),
      available = map (\<lambda>(r, res). (r, res_available res)) (resources m),
      allocation = map (\<lambda>(a, ag). (a, a_allocation ag)) (agents m),
      max_need = map (\<lambda>(a, ag). (a, a_max_needs ag)) (agents m)\<rparr>"

text \<open>Modelled from the spec: \<open>is_safe()\<close>, the verdict on the current state (3, 8).\<close>

definition manager_is_safe :: "ResourceManager \<Rightarrow> bool" where
  "manager_is_safe m = is_safe (check_safety (safety_input m))"

text \<open>
  Modelled from the spec: step 1 of the admission protocol (4.2), in the order it lists
  the checks.
\<close>

definition validate_request ::
  "AgentId \<Rightarrow> ResourceTypeId \<Rightarrow> ResourceQuantity \<Rightarrow> ResourceManager \<Rightarrow> py_error option" where
  "validate_request a r q m =
     (case map_of (agents m) a of
        None \<Rightarrow> Some AgentNotFoundError
      | Some ag \<Rightarrow>
          (case map_of (resources m) r of
             None \<Rightarrow> Some ResourceNotFoundError
           | Some res \<Rightarrow>
               if q < 1 then Some InvalidRequestError
               else if quantity_of (a_allocation ag) r + q > quantity_of (a_max_needs ag) r
               then Some MaxClaimExceededError
               else if q > total_capacity res then Some ResourceCapacityExceededError
               else None))"

text \<open>
  Modelled from the spec: the pending queue has room unless it is at its capacity; a
  capacity of 0 means unbounded (section 6).
\<close>

definition queue_full :: "ResourceManager \<Rightarrow> bool" where
  "queue_full m =
     (pending_queue_capacity (config m) \<noteq> 0 \<and> length (pending m) \<ge> pending_queue_capacity (config m))"

text \<open>
  Modelled from the spec: step 3 of the admission protocol: the request joins the queue
  with the timeout supplied, or else the configured default.
\<close>

definition enqueue ::
  "AgentId \<Rightarrow> quantities \<Rightarrow> timedelta option \<Rightarrow> ResourceManager \<Rightarrow> ResourceManager" where
  "enqueue a items timeout m =
     m\<lparr>pending := pending m @
          [\<lparr>request_id = next_request_id m, req_agent = a, req_items = items,
            req_timeout = (case timeout of Some t \<Rightarrow> Some t
                           | None \<Rightarrow> default_request_timeout (config m))\<rparr>],
       next_request_id := next_request_id m + 1\<rparr>"

text \<open>
  Modelled from the spec: the admission of \<open>request_resources\<close> (4.2, steps 1 to 3), one
  atomic step under the manager lock. \<open>Granted\<close> is the immediate grant; \<open>Pending\<close>
  says that the request was queued and its caller waits for the processor.
\<close>

definition request_resources ::
  "AgentId \<Rightarrow> ResourceTypeId \<Rightarrow> ResourceQuantity \<Rightarrow> timedelta option \<Rightarrow> ResourceManager
     \<Rightarrow> (py_error + RequestStatus) \<times> ResourceManager" where
  "request_resources a r q timeout m =
     (case validate_request a r q m of
        Some e \<Rightarrow> (Inl e, m)
      | None \<Rightarrow>
          if queue_full m then (Inl QueueFullError, m)
          else if q \<le> available_of r m \<and> is_safe (check_hypothetical (safety_input m) a r q)
          then (Inr Granted, transfer a r q m)
          else (Inr Pending, enqueue a [(r, q)] timeout m))"

text \<open>
  Modelled from the spec: the whole map as one hypothetical grant (4.2): the entries are
  granted in turn on a copy of the state, each needing sufficient availability, and
  nothing is kept unless all of them pass.
\<close>

fun grant_all :: "AgentId \<Rightarrow> quantities \<Rightarrow> ResourceManager \<Rightarrow> ResourceManager option" where
  "grant_all a [] m = Some m"
| "grant_all a ((r, q) # rest) m =
     (if q \<le> available_of r m then grant_all a rest (transfer a r q m) else None)"

text \<open>
  Modelled from the spec: step 1 of the admission protocol for every entry of the map;
  the agent is checked also when the map is empty.
\<close>

fun validate_batch :: "AgentId \<Rightarrow> quantities \<Rightarrow> ResourceManager \<Rightarrow> py_error option" where
  "validate_batch a [] m = (case map_of (agents m) a of None \<Rightarrow> Some AgentNotFoundError | Some _ \<Rightarrow> None)"
| "validate_batch a ((r, q) # rest) m =
     (case validate_request a r q m of Some e \<Rightarrow> Some e | None \<Rightarrow> validate_batch a rest m)"

text \<open>
  Modelled from the spec: \<open>request_resources_batch\<close> (4.2): granted only if every
  resource has sufficient availability and the combined grant keeps the system safe.
\<close>

definition request_resources_batch ::
  "AgentId \<Rightarrow> quantities \<Rightarrow> timedelta option \<Rightarrow> ResourceManager
     \<Rightarrow> (py_error + RequestStatus) \<times> ResourceManager" where
  "request_resources_batch a items timeout m =
     (case validate_batch a items m of
        Some e \<Rightarrow> (Inl e, m)
      | None \<Rightarrow>
          if queue_full m then (Inl QueueFullError, m)
          else
            (case grant_all a items m of
               None \<Rightarrow> (Inr Pending, enqueue a items timeout m)
             | Some m1 \<Rightarrow>
                 if manager_is_safe m1 then (Inr Granted, m1)
                 else (Inr Pending, enqueue a items timeout m)))"

text \<open>
  Modelled from the spec: \<open>release_resources\<close> (4.2): the quantity is clamped to the
  amount held and the units return to availability.
\<close>

definition release_resources ::
  "AgentId \<Rightarrow> ResourceTypeId \<Rightarrow> ResourceQuantity \<Rightarrow> ResourceManager
     \<Rightarrow> (py_error + unit) \<times> ResourceManager" where
  "release_resources a r q m =
     (case map_of (agents m) a of
        None \<Rightarrow> (Inl AgentNotFoundError, m)
      | Some ag \<Rightarrow>
          (case map_of (resources m) r of
             None \<Rightarrow> (Inl ResourceNotFoundError, m)
           | Some res \<Rightarrow> (Inr (), transfer a r (- min q (held a r m)) m)))"

text \<open>
  Modelled from the spec: \<open>release_all_resources\<close> (4.2) releases everything the agent
  holds, of one resource or of all.
\<close>

definition release_all_resources ::
  "AgentId \<Rightarrow> ResourceTypeId option \<Rightarrow> ResourceManager \<Rightarrow> (py_error + unit) \<times> ResourceManager" where
  "release_all_resources a ropt m =
     (case map_of (agents m) a of
        None \<Rightarrow> (Inl AgentNotFoundError, m)
      | Some ag \<Rightarrow>
          (case ropt of
             Some r \<Rightarrow> release_resources a r (held a r m) m
           | None \<Rightarrow>
               (Inr (), fold (\<lambda>r m1. transfer a r (- held a r m1) m1) (map fst (resources m)) m)))"

text \<open>
  Modelled from the spec: \<open>deregister_agent\<close> (4.2) returns the agent's units to
  availability, cancels its pending requests and removes it.
\<close>

definition deregister_agent :: "AgentId \<Rightarrow> ResourceManager \<Rightarrow> (py_error + bool) \<times> ResourceManager" where
  "deregister_agent a m =
     (case map_of (agents m) a of
        None \<Rightarrow> (Inl AgentNotFoundError, m)
      | Some ag \<Rightarrow>
          (let m1 = fold (\<lambda>r m1. transfer a r (- held a r m1) m1) (map fst (resources m)) m
           in (Inr True, m1\<lparr>agents := AList.delete a (agents m1),
                            pending := filter (\<lambda>req. req_agent req \<noteq> a) (pending m1)\<rparr>)))"

text \<open>
  Modelled from the spec: \<open>update_agent_max_claim\<close> (4.2) fails with
  \<open>MaxClaimExceeded\<close> if \<open>new_max < H[agent,resource]\<close> or \<open>new_max > C[resource]\<close>.
\<close>

definition update_agent_max_claim ::
  "AgentId \<Rightarrow> ResourceTypeId \<Rightarrow> ResourceQuantity \<Rightarrow> ResourceManager
     \<Rightarrow> (py_error + unit) \<times> ResourceManager" where
  "update_agent_max_claim a r new_max m =
     (case map_of (agents m) a of
        None \<Rightarrow> (Inl AgentNotFoundError, m)
      | Some ag \<Rightarrow>
          (case map_of (resources m) r of
             None \<Rightarrow> (Inl ResourceNotFoundError, m)
           | Some res \<Rightarrow>
               if new_max < held a r m \<or> new_max > total_capacity res
               then (Inl MaxClaimExceededError, m)
               else (Inr (), m\<lparr>agents := AList.map_entry a (declare_max_need r new_max) (agents m)\<rparr>)))"

text \<open>
  Modelled from the spec: what the background processor does with one pending request
  (4.2, processor, step 3): it grants it when every entry has sufficient availability
  and the grant is safe, and leaves it pending otherwise.
\<close>

definition process_request :: "int \<Rightarrow> ResourceManager \<Rightarrow> ResourceManager" where
  "process_request i m =
     (case find (\<lambda>req. request_id req = i) (pending m) of
        None \<Rightarrow> m
      | Some req \<Rightarrow>
          (case grant_all (req_agent req) (req_items req) m of
             None \<Rightarrow> m
           | Some m1 \<Rightarrow>
               if manager_is_safe m1
               then m1\<lparr>pending := filter (\<lambda>x. request_id x \<noteq> i) (pending m1)\<rparr>
               else m))"

text \<open>
  Modelled from the spec: one pass of the processor over the queue in submission order,
  the FIFO policy (4.2, 4.3).
\<close>

definition process_pending :: "ResourceManager \<Rightarrow> ResourceManager" where
  "process_pending m = fold process_request (map request_id (pending m)) m"

text \<open>
  Modelled from the spec: a pending request leaves the queue when its deadline passes
  or it is cancelled (4.2); nothing was granted to it, so no resource is affected (5).
\<close>

definition drop_request :: "int \<Rightarrow> ResourceManager \<Rightarrow> ResourceManager" where
  "drop_request i m = m\<lparr>pending := filter (\<lambda>x. request_id x \<noteq> i) (pending m)\<rparr>"

text \<open>
  Modelled from the spec: the operations of the manager (4.2), each an atomic step on
  its state under the manager lock (section 5); \<open>step\<close> gives the state an operation
  leaves, whatever it returns. The spec names no operation that changes a capacity, and
  none is modelled.
\<close>

datatype operation =
  RegisterResource ResourceTypeId string ResourceCategory ResourceQuantity
  | RegisterAgent Agent
  | DeregisterAgent AgentId
  | UpdateAgentMaxClaim AgentId ResourceTypeId ResourceQuantity
  | RequestResources AgentId ResourceTypeId ResourceQuantity "timedelta option"
  | RequestResourcesBatch AgentId quantities "timedelta option"
  | ReleaseResources AgentId ResourceTypeId ResourceQuantity
  | ReleaseAllResources AgentId "ResourceTypeId option"
  | ProcessRequest int
  | ProcessPending
  | TimeOutRequest int
  | CancelRequest int

fun step :: "operation \<Rightarrow> ResourceManager \<Rightarrow> ResourceManager" where
  "step (RegisterResource r name cat capacity) m = snd (register_resource (new_Resource r name cat capacity) m)"
| "step (RegisterAgent ag) m = snd (register_agent ag m)"
| "step (DeregisterAgent a) m = snd (deregister_agent a m)"
| "step (UpdateAgentMaxClaim a r q) m = snd (update_agent_max_claim a r q m)"
| "step (RequestResources a r q t) m = snd (request_resources a r q t m)"
| "step (RequestResourcesBatch a items t) m = snd (request_resources_batch a items t m)"
| "step (ReleaseResources a r q) m = snd (release_resources a r q m)"
| "step (ReleaseAllResources a ropt) m = snd (release_all_resources a ropt m)"
| "step (ProcessRequest i) m = process_request i m"
| "step ProcessPending m = process_pending m"
| "step (TimeOutRequest i) m = drop_request i m"
| "step (CancelRequest i) m = drop_request i m"

section \<open>The delegation graph\<close>

text \<open>
  Modelled from the spec: the cycle actions (section 6), the result of
  \<open>report_delegation\<close> (4.4) and a delegation edge with its task (section 3), with the
  names the extension's tests use; the graph keeps its edges oldest first.
\<close>

datatype DelegationCycleAction = RejectDelegation | BreakCycle | AllowButWarn


record DelegationInfo =
  from_agent :: AgentId
  to_agent :: AgentId
  task_description :: string

record DelegationGraph =
  delegations :: "DelegationInfo list"
  cycle_action :: DelegationCycleAction





definition remove_delegation :: "AgentId \<Rightarrow> AgentId \<Rightarrow> DelegationGraph \<Rightarrow> DelegationGraph" where
  "remove_delegation f t g =
     g\<lparr>delegations := filter (\<lambda>d. \<not> (from_agent d = f \<and> to_agent d = t)) (delegations g)\<rparr>"



text \<open>
  Modelled from the spec: \<open>complete_delegation\<close> and \<open>cancel_delegation\<close> remove the
  edge (4.4).
\<close>

definition complete_delegation :: "AgentId \<Rightarrow> AgentId \<Rightarrow> DelegationGraph \<Rightarrow> DelegationGraph" where
  "complete_delegation f t g = remove_delegation f t g"

definition cancel_delegation :: "AgentId \<Rightarrow> AgentId \<Rightarrow> DelegationGraph \<Rightarrow> DelegationGraph" where
  "cancel_delegation f t g = remove_delegation f t g"




declare bankers_loop.simps [simp del]

section \<open>The wrapper over the modelled manager\<close>

text \<open>\<^verbatim>\<open>AgentGuard.__init__\<close>: no resource is named yet and ids start at 1.\<close>

definition new_AgentGuard :: "'m \<Rightarrow> bool \<Rightarrow> 'm AgentGuard" where
  "new_AgentGuard m auto_start =
     \<lparr>manager = m, resource_names = Map.empty, next_resource_id = 1, started = auto_start\<rparr>"

text \<open>
  Modelled from the spec: the blocking calls (4.2, 5) as their caller sees them when no
  other thread acts before the deadline. A request queued on admission cannot be granted
  by the processor, which looks at the same state; it leaves the queue when its deadline
  passes and the call returns \<open>TimedOut\<close>. A queued request without a deadline keeps
  its caller waiting: the answer stays \<open>Pending\<close>.
\<close>

definition await_deadline ::
  "(py_error + RequestStatus) \<times> ResourceManager \<Rightarrow> (py_error + RequestStatus) \<times> ResourceManager" where
  "await_deadline answer =
     (case answer of
        (Inr Pending, m) \<Rightarrow>
          (case pending m of
             [] \<Rightarrow> answer
           | req # reqs \<Rightarrow>
               if req_timeout (last (req # reqs)) = None then answer
               else (Inr TimedOut, drop_request (request_id (last (req # reqs))) m))
      | _ \<Rightarrow> answer)"

text \<open>
  Modelled from the spec: \<open>report_progress\<close> (4.6) needs a registered agent; the
  progress record is not part of this state.
\<close>

definition note_progress ::
  "AgentId \<Rightarrow> string \<Rightarrow> rat \<Rightarrow> ResourceManager \<Rightarrow> (py_error + unit) \<times> ResourceManager" where
  "note_progress a metric v m =
     (case map_of (agents m) a of None \<Rightarrow> (Inl AgentNotFoundError, m) | Some _ \<Rightarrow> (Inr (), m))"

text \<open>
  Modelled from the spec: the manager as one thread calls it, for agents in static
  demand mode, for which \<open>request_resources_adaptive\<close> is the synchronous request
  (4.2).
\<close>

definition single_thread_ops :: "ResourceManager manager_ops" where
  "single_thread_ops =
     \<lparr>mgr_register_resource = register_resource,
      mgr_request_resources = (\<lambda>a r q t m. await_deadline (request_resources a r q t m)),
      mgr_request_resources_adaptive = (\<lambda>a r q t m. await_deadline (request_resources a r q t m)),
      mgr_request_resources_batch = (\<lambda>a items t m. await_deadline (request_resources_batch a items t m)),
      mgr_release_resources = release_resources,
      mgr_report_progress = note_progress\<rparr>"

text \<open>
  The state the tests of the wrapper set up: the resource \<^verbatim>\<open>"api"\<close> of capacity 10
  and one agent \<^verbatim>\<open>"worker"\<close> that may hold up to 5 of it.
\<close>

definition test_config :: Config where
  "test_config =
     \<lparr>max_agents = 1024, default_request_timeout = Some (Seconds 2),
      pending_queue_capacity = 0, unique_agent_names = True\<rparr>"

definition api_guard :: "ResourceManager AgentGuard" where
  "api_guard =
     \<lparr>manager =
        \<lparr>config = test_config,
         resources = [(1, new_Resource 1 ''api'' Custom 10)],
         agents = [],
         next_agent_id = 1, pending = [], next_request_id = 1\<rparr>,
      resource_names = [''api'' \<mapsto> 1], next_resource_id = 2, started = True\<rparr>"

definition worker_guard :: "ResourceManager AgentGuard" where
  "worker_guard =
     api_guard\<lparr>manager := (manager api_guard)
        \<lparr>agents := [(1, declare_max_need 1 5 (new_Agent 1 ''worker'' 50))], next_agent_id := 2\<rparr>\<rparr>"



text \<open>
  \<^verbatim>\<open>AgentGuardCallbackHandler.__init__\<close>: nothing is active and no step is counted.
\<close>

definition new_AgentGuardCallbackHandler ::
  "'m AgentGuard \<Rightarrow> AgentId \<Rightarrow> (string \<rightharpoonup> (string \<times> ResourceQuantity) list) \<Rightarrow> rat option \<Rightarrow> bool
     \<Rightarrow> 'm AgentGuardCallbackHandler" where
  "new_AgentGuardCallbackHandler g agent resources_of_tool timeout report =
     \<lparr>guard = g, handler_agent_id = agent, tool_resources = resources_of_tool,
      handler_timeout = timeout, handler_report_progress = report, active = Map.empty,
      step_count = 0\<rparr>"

text \<open>
  Two handlers for the agent \<^verbatim>\<open>"worker"\<close>: the tool \<^verbatim>\<open>"search"\<close> needs one unit of
  \<^verbatim>\<open>"api"\<close>; and the same requirement under the empty tool name, which is the name
  \<^verbatim>\<open>on_tool_start\<close> gives a tool whose \<open>serialized\<close> dict has no \<^verbatim>\<open>"name"\<close>.
\<close>

definition search_handler :: "ResourceManager AgentGuardCallbackHandler" where
  "search_handler =
     new_AgentGuardCallbackHandler worker_guard 1 [''search'' \<mapsto> [(''api'', 1)]] None True"

definition nameless_handler :: "ResourceManager AgentGuardCallbackHandler" where
  "nameless_handler =
     new_AgentGuardCallbackHandler worker_guard 1 [[] \<mapsto> [(''api'', 1)]] None True"

text \<open>
  The handlers after \<^verbatim>\<open>on_tool_start\<close> has taken the unit for a run without a run id,
  the first under the key \<^verbatim>\<open>"search"\<close> and the second under the empty key, and the
  second after \<^verbatim>\<open>on_tool_end\<close> has given the unit back.
\<close>

definition search_started :: "ResourceManager AgentGuardCallbackHandler" where
  "search_started =
     search_handler
       \<lparr>guard := worker_guard\<lparr>manager := transfer 1 1 1 (manager worker_guard)\<rparr>,
        active := [''search'' \<mapsto> [(''api'', 1)]]\<rparr>"

definition nameless_started :: "ResourceManager AgentGuardCallbackHandler" where
  "nameless_started =
     nameless_handler
       \<lparr>guard := worker_guard\<lparr>manager := transfer 1 1 1 (manager worker_guard)\<rparr>,
        active := [[] \<mapsto> [(''api'', 1)]]\<rparr>"

definition nameless_ended :: "ResourceManager AgentGuardCallbackHandler" where
  "nameless_ended =
     nameless_handler
       \<lparr>guard := worker_guard\<lparr>manager := transfer 1 1 (- 1) (transfer 1 1 1 (manager worker_guard))\<rparr>,
        active := Map.empty, step_count := 1\<rparr>"

text \<open>A \<^verbatim>\<open>release_resources\<close> that raises instead of releasing.\<close>

definition refusing_release ::
  "AgentId \<Rightarrow> ResourceTypeId \<Rightarrow> ResourceQuantity \<Rightarrow> ResourceManager \<Rightarrow> (py_error + unit) \<times> ResourceManager" where
  "refusing_release a r q m = (Inl RuntimeError, m)"

section \<open>The invariant of the manager\<close>





definition run :: "Config \<Rightarrow> operation list \<Rightarrow> ResourceManager" where
  "run c ops = fold step ops (new_ResourceManager c)"








section \<open>Every operation keeps the invariant\<close>

subsection \<open>Transfers\<close>

lemma quantity_of_update:
  "quantity_of (AList.update r v d) r' = (if r' = r then v else quantity_of d r')"
  by (simp add: quantity_of_def update_conv')

















subsection \<open>Registration and requests\<close>












subsection \<open>Releases, deregistration and the processor\<close>













subsection \<open>A grant and its release\<close>





subsection \<open>The callback handler\<close>

lemma report_progress_release [simp]:
  "report_progress (ops\<lparr>mgr_release_resources := release\<rparr>) = report_progress ops"
  by (intro ext) (simp add: report_progress_def)

lemma active_on_tool_end:
  "active (snd (on_tool_end ops output rid h)) = (active h)((if truthy rid then str rid else []) := None)"
  by (simp add: on_tool_end_def Let_def split: prod.splits sum.splits)

lemma on_tool_end_nothing_active:
  assumes "active h (if truthy rid then str rid else []) = None"
  shows "on_tool_end (ops\<lparr>mgr_release_resources := release\<rparr>) output rid h = on_tool_end ops output rid h"
  using assms by (simp add: on_tool_end_def Let_def)

lemma active_on_tool_start:
  assumes "on_tool_start ops serialized input_str rid h = (Inr (), hs)"
    and "(case serialized ''name'' of Some n \<Rightarrow> n | None \<Rightarrow> []) = tool_name"
    and "tool_resources h tool_name = Some entries" and "entries \<noteq> []"
  shows "active hs = (active h)((if truthy rid then str rid else tool_name) \<mapsto> entries)"
  using assms by (auto simp: on_tool_start_def Let_def split: prod.splits sum.splits if_splits)

lemma grant_one: "request_resources 1 1 1 None (manager worker_guard)
    = (Inr Granted, transfer 1 1 1 (manager worker_guard))"
  by code_simp

lemma give_one: "release_resources 1 1 1 (transfer 1 1 1 (manager worker_guard))
    = (Inr (), transfer 1 1 (- 1) (transfer 1 1 1 (manager worker_guard)))"
  by code_simp

lemma worker_names: "resource_names worker_guard = [''api'' \<mapsto> 1]"
  by (simp add: worker_guard_def api_guard_def)

lemma worker_known: "map_of (agents (transfer 1 1 x (transfer 1 1 y (manager worker_guard)))) 1 \<noteq> None"
  "map_of (agents (transfer 1 1 y (manager worker_guard))) 1 \<noteq> None"
  by (simp_all add: transfer_def worker_guard_def api_guard_def)

lemma nameless_start: "on_tool_start single_thread_ops Map.empty ''query'' PyNone nameless_handler
       = (Inr (), nameless_started)"
  by (simp add: Let_def on_tool_start_def nameless_handler_def new_AgentGuardCallbackHandler_def
      resolve_resource_def worker_names single_thread_ops_def grant_one await_deadline_def
      nameless_started_def)

lemma nameless_end: "on_tool_end single_thread_ops ''found'' PyNone nameless_started = (Inr (), nameless_ended)"
  using worker_known(1) [of "- 1" 1]
  by (auto simp add: Let_def on_tool_end_def nameless_started_def nameless_handler_def new_AgentGuardCallbackHandler_def
      resolve_resource_def worker_names single_thread_ops_def give_one report_progress_def
      note_progress_def nameless_ended_def)

lemma nameless_end_refused: "on_tool_end (single_thread_ops\<lparr>mgr_release_resources := refusing_release\<rparr>)
          ''found'' PyNone nameless_started
       \<noteq> on_tool_end single_thread_ops ''found'' PyNone nameless_started"
  unfolding nameless_end
  by (simp add: Let_def on_tool_end_def nameless_started_def nameless_handler_def new_AgentGuardCallbackHandler_def
      resolve_resource_def worker_names refusing_release_def)

lemma search_start: "on_tool_start single_thread_ops [''name'' \<mapsto> ''search''] ''query'' PyNone search_handler
       = (Inr (), search_started)"
  by (simp add: Let_def on_tool_start_def search_handler_def new_AgentGuardCallbackHandler_def
      resolve_resource_def worker_names single_thread_ops_def grant_one await_deadline_def
      search_started_def)

subsection \<open>Batch requests\<close>








section \<open>Properties of the safety checker\<close>

lemma find_sorted_least:
  assumes "sorted xs" and "find P xs = Some a"
  shows "a \<in> set xs \<and> P a \<and> (\<forall>b \<in> set xs. P b \<longrightarrow> a \<le> b)"
  using assms
proof (induction xs)
  case Nil
  then show ?case by simp
next
  case (Cons x xs)
  show ?case
  proof (cases "P x")
    case True
    with Cons.prems show ?thesis by auto
  next
    case False
    with Cons.prems have "sorted xs" and "find P xs = Some a" by simp_all
    with Cons.IH have "a \<in> set xs \<and> P a \<and> (\<forall>b \<in> set xs. P b \<longrightarrow> a \<le> b)" by simp
    with False show ?thesis by auto
  qed
qed

lemma sorted_input_agents: "sorted (input_agents inp)"
  by (simp add: input_agents_def)

lemma distinct_input_agents: "distinct (input_agents inp)"
  by (simp add: input_agents_def)

lemma bankers_loop_run:
  "\<exists>ext. bankers_loop inp work seq = seq @ ext
     \<and> (\<forall>i < length ext. chosen inp (foldl (give_back inp) work (take i ext)) (seq @ take i ext) (ext ! i))
     \<and> (\<forall>b \<in> set (input_agents inp). b \<notin> set (seq @ ext)
           \<longrightarrow> \<not> can_finish inp (foldl (give_back inp) work ext) b)"
proof (induction inp work seq rule: bankers_loop.induct)
  case (1 inp work seq)
  let ?P = "\<lambda>a. a \<notin> set seq \<and> can_finish inp work a"
  show ?case
  proof (cases "find ?P (input_agents inp)")
    case None
    then have "bankers_loop inp work seq = seq @ []"
      by (simp add: bankers_loop.simps)
    moreover from None have "\<forall>b \<in> set (input_agents inp). b \<notin> set seq \<longrightarrow> \<not> can_finish inp work b"
      by (auto simp: find_None_iff)
    ultimately show ?thesis by (intro exI [of _ "[]"]) simp
  next
    case (Some a)
    from find_sorted_least [OF sorted_input_agents Some]
    have first: "chosen inp work seq a"
      by (auto simp: chosen_def)
    from "1.IH" [OF Some] obtain ext
      where run: "bankers_loop inp (give_back inp work a) (seq @ [a]) = (seq @ [a]) @ ext"
        and steps: "\<forall>i < length ext. chosen inp (foldl (give_back inp) (give_back inp work a) (take i ext))
                      ((seq @ [a]) @ take i ext) (ext ! i)"
        and stuck: "\<forall>b \<in> set (input_agents inp). b \<notin> set ((seq @ [a]) @ ext)
                      \<longrightarrow> \<not> can_finish inp (foldl (give_back inp) (give_back inp work a) ext) b"
      by blast
    have "bankers_loop inp work seq = seq @ (a # ext)"
      using Some run by (simp add: bankers_loop.simps [of inp work seq])
    moreover have "chosen inp (foldl (give_back inp) work (take i (a # ext))) (seq @ take i (a # ext)) ((a # ext) ! i)"
      if "i < length (a # ext)" for i
    proof (cases i)
      case 0
      with first show ?thesis by simp
    next
      case (Suc j)
      with that steps show ?thesis by simp
    qed
    moreover have "\<forall>b \<in> set (input_agents inp). b \<notin> set (seq @ a # ext)
        \<longrightarrow> \<not> can_finish inp (foldl (give_back inp) work (a # ext)) b"
      using stuck by simp
    ultimately show ?thesis by blast
  qed
qed

lemma quantity_of_nonzero: "quantity_of d r \<noteq> 0 \<Longrightarrow> r \<in> fst ` set d"
  by (auto simp: quantity_of_def map_of_eq_None_iff split: option.splits dest: map_of_SomeD intro: rev_image_eqI)

lemma row_of_nonempty: "row_of t a \<noteq> [] \<Longrightarrow> a \<in> fst ` set t"
  by (auto simp: row_of_def split: option.splits dest: map_of_SomeD intro: rev_image_eqI)

lemma need_nonzero:
  assumes "need inp a r \<noteq> 0"
  shows "a \<in> set (input_agents inp) \<and> r \<in> set (input_resources inp)"
proof -
  from assms have "quantity_of (row_of (max_need inp) a) r \<noteq> 0
      \<or> quantity_of (row_of (allocation inp) a) r \<noteq> 0"
    unfolding need_def by linarith
  then consider "quantity_of (row_of (max_need inp) a) r \<noteq> 0"
    | "quantity_of (row_of (allocation inp) a) r \<noteq> 0"
    by blast
  then show ?thesis
  proof cases
    case 1
    then have r: "r \<in> fst ` set (row_of (max_need inp) a)" by (rule quantity_of_nonzero)
    then have "row_of (max_need inp) a \<noteq> []" by auto
    then have a: "a \<in> set (input_agents inp)"
      by (auto simp: input_agents_def dest: row_of_nonempty)
    with r show ?thesis by (auto simp: input_resources_def)
  next
    case 2
    then have r: "r \<in> fst ` set (row_of (allocation inp) a)" by (rule quantity_of_nonzero)
    then have "row_of (allocation inp) a \<noteq> []" by auto
    then have a: "a \<in> set (input_agents inp)"
      by (auto simp: input_agents_def dest: row_of_nonempty)
    with r show ?thesis by (auto simp: input_resources_def)
  qed
qed

lemma negative_need_iff: "negative_need inp \<longleftrightarrow> (\<exists>a r. need inp a r < 0)"
proof
  assume "negative_need inp"
  then show "\<exists>a r. need inp a r < 0"
    by (auto simp: negative_need_def list_ex_iff)
next
  assume "\<exists>a r. need inp a r < 0"
  then obtain a r where neg: "need inp a r < 0" by blast
  then have "need inp a r \<noteq> 0" by simp
  from need_nonzero [OF this] neg show "negative_need inp"
    by (auto simp: negative_need_def list_ex_iff)
qed

lemma distinct_by_prefix:
  assumes "\<forall>i < length xs. xs ! i \<notin> set (take i xs)"
  shows "distinct xs"
  unfolding distinct_conv_nth
proof (intro allI impI)
  fix i j assume i: "i < length xs" and j: "j < length xs" and ne: "i \<noteq> j"
  show "xs ! i \<noteq> xs ! j"
  proof (cases "i < j")
    case True
    with j have "xs ! i \<in> set (take j xs)"
      by (auto simp: in_set_conv_nth intro!: exI [of _ i])
    with assms j show ?thesis by metis
  next
    case False
    with ne have lt: "j < i" by simp
    with i have "xs ! j \<in> set (take i xs)"
      by (auto simp: in_set_conv_nth intro!: exI [of _ j])
    with assms i show ?thesis by metis
  qed
qed

lemma foldl_give_back:
  "foldl (give_back inp) w xs r = w r + (\<Sum>a\<leftarrow>xs. quantity_of (row_of (allocation inp) a) r)"
  by (induction xs arbitrary: w) (simp_all add: give_back_def)

lemma work_after_mono:
  assumes nonneg: "\<forall>a r. 0 \<le> quantity_of (row_of (allocation inp) a) r"
    and "distinct xs" and "distinct ys" and "set xs \<subseteq> set ys"
  shows "work_after inp xs r \<le> work_after inp ys r"
proof -
  let ?f = "\<lambda>a. quantity_of (row_of (allocation inp) a) r"
  have "sum ?f (set xs) \<le> sum ?f (set ys)"
    using assms(4) nonneg by (intro sum_mono2) auto
  with assms(2,3) have "(\<Sum>a\<leftarrow>xs. ?f a) \<le> (\<Sum>a\<leftarrow>ys. ?f a)"
    by (simp add: sum_list_distinct_conv_sum_set)
  then show ?thesis
    by (simp add: work_after_def foldl_give_back)
qed

lemma can_finish_mono:
  assumes "can_finish inp w a" and "\<And>r. w r \<le> w' r"
  shows "can_finish inp w' a"
  using assms by (auto simp: can_finish_def list_all_iff intro: order_trans)

lemma check_safety_run:
  assumes "\<not> negative_need inp"
  shows "safe_sequence (check_safety inp) = bankers_loop inp (quantity_of (available inp)) []"
    and "is_safe (check_safety inp) \<longleftrightarrow> set (input_agents inp) \<subseteq> set (safe_sequence (check_safety inp))"
  using assms by (auto simp: check_safety_def Let_def list_all_iff)

lemma safe_sequence_steps:
  "(\<forall>i < length (safe_sequence (check_safety inp)).
      chosen inp (work_after inp (take i (safe_sequence (check_safety inp))))
        (take i (safe_sequence (check_safety inp))) (safe_sequence (check_safety inp) ! i))
   \<and> (\<not> negative_need inp \<longrightarrow>
        (\<forall>b \<in> set (input_agents inp). b \<notin> set (safe_sequence (check_safety inp))
           \<longrightarrow> \<not> can_finish inp (work_after inp (safe_sequence (check_safety inp))) b))"
proof (cases "negative_need inp")
  case True
  then show ?thesis by (simp add: check_safety_def)
next
  case False
  from bankers_loop_run [of inp "quantity_of (available inp)" "[]"] check_safety_run(1) [OF False]
  show ?thesis
    by (auto simp: work_after_def)
qed

lemma safe_sequence_distinct:
  "distinct (safe_sequence (check_safety inp))
   \<and> set (safe_sequence (check_safety inp)) \<subseteq> set (input_agents inp)"
proof -
  let ?seq = "safe_sequence (check_safety inp)"
  from safe_sequence_steps [of inp]
  have steps: "\<forall>i < length ?seq. chosen inp (work_after inp (take i ?seq)) (take i ?seq) (?seq ! i)"
    by blast
  then have "\<forall>i < length ?seq. ?seq ! i \<notin> set (take i ?seq)"
    by (simp add: chosen_def)
  then have "distinct ?seq" by (rule distinct_by_prefix)
  moreover from steps have "set ?seq \<subseteq> set (input_agents inp)"
    by (auto simp: chosen_def in_set_conv_nth)
  ultimately show ?thesis by simp
qed

lemma safe_completes:
  assumes "is_safe (check_safety inp)"
  shows "completes inp (safe_sequence (check_safety inp))"
proof -
  from assms have ok: "\<not> negative_need inp"
    by (auto simp: check_safety_def split: if_splits)
  from check_safety_run(2) [OF ok] assms safe_sequence_distinct [of inp] safe_sequence_steps [of inp]
  show ?thesis
    by (auto simp: completes_def chosen_def)
qed

lemma completes_safe:
  assumes nonneg: "\<forall>a r. 0 \<le> quantity_of (row_of (allocation inp) a) r"
    and ok: "\<not> negative_need inp" and p: "completes inp p"
  shows "is_safe (check_safety inp)"
proof (rule ccontr)
  let ?seq = "safe_sequence (check_safety inp)"
  assume "\<not> is_safe (check_safety inp)"
  with check_safety_run(2) [OF ok] obtain b where "b \<in> set (input_agents inp)" "b \<notin> set ?seq"
    by auto
  with p have "b \<in> set p" by (simp add: completes_def)
  then obtain k where "k < length p" "p ! k = b"
    by (auto simp: in_set_conv_nth)
  with \<open>b \<notin> set ?seq\<close> have "k < length p" "p ! k \<notin> set ?seq"
    by simp_all
  then have ex: "\<exists>k. k < length p \<and> p ! k \<notin> set ?seq" by blast
  define i where "i = (LEAST k. k < length p \<and> p ! k \<notin> set ?seq)"
  from LeastI_ex [OF ex] have i: "i < length p" "p ! i \<notin> set ?seq"
    unfolding i_def by simp_all
  have before: "p ! j \<in> set ?seq" if "j < i" for j
  proof (rule ccontr)
    assume "p ! j \<notin> set ?seq"
    with that i(1) have "j < length p \<and> p ! j \<notin> set ?seq" by simp
    then have "i \<le> j" unfolding i_def by (rule Least_le)
    with that show False by simp
  qed
  have sub: "set (take i p) \<subseteq> set ?seq"
    using before i(1) by (auto simp: in_set_conv_nth)
  from p have "distinct (take i p)" by (simp add: completes_def)
  with nonneg safe_sequence_distinct [of inp] sub
  have "work_after inp (take i p) r \<le> work_after inp ?seq r" for r
    by (intro work_after_mono) simp_all
  moreover from p i(1) have "can_finish inp (work_after inp (take i p)) (p ! i)"
    by (simp add: completes_def)
  ultimately have "can_finish inp (work_after inp ?seq) (p ! i)"
    by (rule can_finish_mono [rotated])
  moreover from p i(1) have "p ! i \<in> set (input_agents inp)"
    by (auto simp: completes_def)
  ultimately show False
    using safe_sequence_steps [of inp] ok i(2) by blast
qed

lemma row_of_update: "row_of (AList.update a d t) a' = (if a' = a then d else row_of t a')"
  by (simp add: row_of_def update_conv')

lemma grant_in_input_effect:
  "quantity_of (available (grant_in_input inp a r q)) r'
     = quantity_of (available inp) r' - (if r' = r then q else 0)"
  "quantity_of (row_of (allocation (grant_in_input inp a r q)) a') r'
     = quantity_of (row_of (allocation inp) a') r' + (if a' = a \<and> r' = r then q else 0)"
  "total (grant_in_input inp a r q) = total inp"
  "max_need (grant_in_input inp a r q) = max_need inp"
  by (simp_all add: grant_in_input_def quantity_of_update row_of_update)

section \<open>Properties of the delegation graph\<close>












section \<open>Properties of the wrapper\<close>

text \<open>
  C8. For every resource name and capacity, calling \<^verbatim>\<open>AgentGuard.add_resource\<close> twice
  with the same name returns the same integer resource id on both calls: whenever a
  call returns an id, a later call with that name returns the same id, whatever the
  capacity and category it passes, and changes nothing.
\<close>

theorem add_resource_same_id:
  assumes "add_resource ops name capacity category g = (Inr rid, g1)"
  shows "add_resource ops name capacity2 category2 g1 = (Inr rid, g1)"
proof (cases "resource_names g name")
  case (Some known)
  with assms have "rid = known" and "g1 = g"
    by (simp_all add: add_resource_def)
  with Some show ?thesis
    by (simp add: add_resource_def)
next
  case None
  obtain r m1 where reg: "mgr_register_resource ops
      (new_Resource (next_resource_id g) name
         (case CATEGORY_MAP category of Some c \<Rightarrow> c | None \<Rightarrow> Custom) capacity) (manager g) = (r, m1)"
    by (cases "mgr_register_resource ops
      (new_Resource (next_resource_id g) name
         (case CATEGORY_MAP category of Some c \<Rightarrow> c | None \<Rightarrow> Custom) capacity) (manager g)")
  from assms None reg have "resource_names g1 name = Some rid"
    by (cases r) (auto simp: add_resource_def Let_def)
  then show ?thesis
    by (simp add: add_resource_def)
qed

theorem add_resource_same_id_witness:
  "add_resource single_thread_ops ''api'' 10 ''custom''
       (new_AgentGuard (new_ResourceManager test_config) True) = (Inr 1, api_guard)
   \<and> add_resource single_thread_ops ''api'' 20 ''tool_slot'' api_guard = (Inr 1, api_guard)"
proof -
  have first: "add_resource single_thread_ops ''api'' 10 ''custom''
       (new_AgentGuard (new_ResourceManager test_config) True) = (Inr 1, api_guard)"
    by (simp add: add_resource_def new_AgentGuard_def new_ResourceManager_def single_thread_ops_def
        register_resource_def api_guard_def CATEGORY_MAP_def new_Resource_def)
  from first add_resource_same_id [OF first, of 20 "''tool_slot''"] show ?thesis
    by simp
qed



text \<open>
  C10, as amended. In \<^verbatim>\<open>AgentGuardCallbackHandler\<close>, resources recorded for a run key
  in \<^verbatim>\<open>on_tool_start\<close> are released at most once: \<^verbatim>\<open>on_tool_end\<close> pops the run's
  entry from the active map before releasing, so a second \<^verbatim>\<open>on_tool_end\<close> for the same
  run id releases nothing further, whatever \<^verbatim>\<open>release_resources\<close> would do (first
  part). \<^verbatim>\<open>on_tool_start\<close> keys a run with a falsy run id under the tool name while
  \<^verbatim>\<open>on_tool_end\<close> keys it under the empty string, and \<^verbatim>\<open>on_tool_error\<close> passes its run
  id on to \<^verbatim>\<open>on_tool_end\<close> (fourth part); so an entry under a non-empty key survives
  every end or error callback with a falsy run id (second part), and the resources that a
  tool with a non-empty name stored under a falsy run id are never released by the
  matching end or error callback: they stay in the active map, and when nothing is
  active under the empty key the callback releases nothing at all (third part).
\<close>

theorem falsy_run_id_not_released:
  "(on_tool_end ops out rid h = (res, h1)
      \<longrightarrow> active h1 (if truthy rid then str rid else []) = None
          \<and> on_tool_end (ops\<lparr>mgr_release_resources := release\<rparr>) out2 rid h1
              = on_tool_end ops out2 rid h1)
   \<and> (\<not> truthy rid \<and> key \<noteq> [] \<and> active h key = Some entries
      \<longrightarrow> active (snd (on_tool_end ops out rid h)) key = Some entries
          \<and> active (snd (on_tool_error ops error rid h)) key = Some entries)
   \<and> (\<not> truthy rid \<and> (case serialized ''name'' of Some n \<Rightarrow> n | None \<Rightarrow> []) = tool_name
        \<and> tool_name \<noteq> [] \<and> tool_resources h tool_name = Some entries \<and> entries \<noteq> []
        \<and> active h [] = None
        \<and> on_tool_start ops serialized input_str rid h = (Inr (), hs)
      \<longrightarrow> active hs tool_name = Some entries
          \<and> on_tool_end (ops\<lparr>mgr_release_resources := release\<rparr>) out rid hs
              = on_tool_end ops out rid hs
          \<and> on_tool_error (ops\<lparr>mgr_release_resources := release\<rparr>) error rid hs
              = on_tool_error ops error rid hs
          \<and> active (snd (on_tool_end ops out rid hs)) tool_name = Some entries
          \<and> active (snd (on_tool_error ops error rid hs)) tool_name = Some entries)
   \<and> on_tool_error ops error rid h = on_tool_end ops [] rid h"
proof (intro conjI impI)
  assume "on_tool_end ops out rid h = (res, h1)"
  then have h1: "h1 = snd (on_tool_end ops out rid h)" by simp
  then show gone: "active h1 (if truthy rid then str rid else []) = None"
    by (simp add: active_on_tool_end)
  then show "on_tool_end (ops\<lparr>mgr_release_resources := release\<rparr>) out2 rid h1
      = on_tool_end ops out2 rid h1"
    by (rule on_tool_end_nothing_active)
next
  assume "\<not> truthy rid \<and> key \<noteq> [] \<and> active h key = Some entries"
  then show "active (snd (on_tool_end ops out rid h)) key = Some entries"
    and "active (snd (on_tool_error ops error rid h)) key = Some entries"
    by (simp_all add: on_tool_error_def active_on_tool_end)
next
  assume asm: "\<not> truthy rid \<and> (case serialized ''name'' of Some n \<Rightarrow> n | None \<Rightarrow> []) = tool_name
        \<and> tool_name \<noteq> [] \<and> tool_resources h tool_name = Some entries \<and> entries \<noteq> []
        \<and> active h [] = None
        \<and> on_tool_start ops serialized input_str rid h = (Inr (), hs)"
  then have falsy: "\<not> truthy rid" and named: "tool_name \<noteq> []" and clean: "active h [] = None"
    by simp_all
  from asm have stored: "active hs = (active h)(tool_name \<mapsto> entries)"
    using active_on_tool_start [of ops serialized input_str rid h hs tool_name entries] by simp
  then show "active hs tool_name = Some entries" by simp
  from stored falsy named clean have "active hs (if truthy rid then str rid else []) = None"
    by simp
  then show "on_tool_end (ops\<lparr>mgr_release_resources := release\<rparr>) out rid hs
      = on_tool_end ops out rid hs"
    and "on_tool_error (ops\<lparr>mgr_release_resources := release\<rparr>) error rid hs
      = on_tool_error ops error rid hs"
    by (simp_all add: on_tool_error_def on_tool_end_nothing_active)
  from stored falsy named
  show "active (snd (on_tool_end ops out rid hs)) tool_name = Some entries"
    and "active (snd (on_tool_error ops error rid hs)) tool_name = Some entries"
    by (simp_all add: on_tool_error_def active_on_tool_end)
next
  show "on_tool_error ops error rid h = on_tool_end ops [] rid h"
    by (simp add: on_tool_error_def)
qed

text \<open>
  C10 as stated fails for a tool whose name is empty: \<^verbatim>\<open>on_tool_start\<close> without a run
  id stores its resources under the empty key, the key under which the matching
  \<^verbatim>\<open>on_tool_end\<close> looks, and the unit taken (9 of 10 left) is released (10 of 10).
\<close>

theorem falsy_run_id_released_counterexample:
  "\<not> truthy PyNone
   \<and> on_tool_start single_thread_ops Map.empty ''query'' PyNone nameless_handler
       = (Inr (), nameless_started)
   \<and> active nameless_started [] = Some [(''api'', 1)]
   \<and> available_of 1 (manager (guard nameless_started)) = 9
   \<and> on_tool_end single_thread_ops ''found'' PyNone nameless_started = (Inr (), nameless_ended)
   \<and> active nameless_ended [] = None
   \<and> available_of 1 (manager (guard nameless_ended)) = 10
   \<and> on_tool_end (single_thread_ops\<lparr>mgr_release_resources := refusing_release\<rparr>)
          ''found'' PyNone nameless_started
       \<noteq> on_tool_end single_thread_ops ''found'' PyNone nameless_started"
proof -
  have taken: "available_of 1 (transfer 1 1 1 (manager worker_guard)) = 9"
    by code_simp
  have given: "available_of 1 (transfer 1 1 (- 1) (transfer 1 1 1 (manager worker_guard))) = 10"
    by code_simp
  from taken given nameless_start nameless_end nameless_end_refused show ?thesis
    by (simp add: nameless_started_def nameless_ended_def)
qed

theorem falsy_run_id_not_released_witness:
  "on_tool_end single_thread_ops ''found'' PyNone nameless_started = (Inr (), nameless_ended)
   \<and> active nameless_ended (if truthy PyNone then str PyNone else []) = None
   \<and> on_tool_end (single_thread_ops\<lparr>mgr_release_resources := refusing_release\<rparr>) ''again'' PyNone nameless_ended
       = on_tool_end single_thread_ops ''again'' PyNone nameless_ended
   \<and> \<not> truthy PyNone \<and> ''search'' \<noteq> [] \<and> active search_started ''search'' = Some [(''api'', 1)]
   \<and> active (snd (on_tool_end single_thread_ops ''found'' PyNone search_started)) ''search''
       = Some [(''api'', 1)]
   \<and> active (snd (on_tool_error single_thread_ops RuntimeError PyNone search_started)) ''search''
       = Some [(''api'', 1)]
   \<and> (case [''name'' \<mapsto> ''search''] ''name'' of Some n \<Rightarrow> n | None \<Rightarrow> []) = ''search''
   \<and> tool_resources search_handler ''search'' = Some [(''api'', 1)] \<and> [(''api'', 1 :: int)] \<noteq> []
   \<and> active search_handler [] = None
   \<and> on_tool_start single_thread_ops [''name'' \<mapsto> ''search''] ''query'' PyNone search_handler
       = (Inr (), search_started)
   \<and> on_tool_end (single_thread_ops\<lparr>mgr_release_resources := refusing_release\<rparr>) ''found'' PyNone search_started
       = on_tool_end single_thread_ops ''found'' PyNone search_started
   \<and> on_tool_error (single_thread_ops\<lparr>mgr_release_resources := refusing_release\<rparr>) RuntimeError PyNone search_started
       = on_tool_error single_thread_ops RuntimeError PyNone search_started
   \<and> on_tool_error single_thread_ops RuntimeError PyNone search_started
       = on_tool_end single_thread_ops [] PyNone search_started"
proof -
  have falsy: "\<not> truthy PyNone" by simp
  have named: "''search'' \<noteq> []" by simp
  have stored: "active search_started ''search'' = Some [(''api'', 1)]"
    by (simp add: search_started_def)
  have name: "(case [''name'' \<mapsto> ''search''] ''name'' of Some n \<Rightarrow> n | None \<Rightarrow> []) = ''search''"
    by simp
  have tool: "tool_resources search_handler ''search'' = Some [(''api'', 1)]"
    by (simp add: search_handler_def new_AgentGuardCallbackHandler_def)
  have some: "[(''api'', 1 :: int)] \<noteq> []" by simp
  have clean: "active search_handler [] = None"
    by (simp add: search_handler_def new_AgentGuardCallbackHandler_def)
  note first = falsy_run_id_not_released [where ops = single_thread_ops and out = "''found''"
      and rid = PyNone and h = nameless_started and res = "Inr ()" and ?h1.0 = nameless_ended
      and release = refusing_release and ?out2.0 = "''again''",
      THEN conjunct1, THEN mp, OF nameless_end]
  note second = falsy_run_id_not_released [where ops = single_thread_ops and out = "''found''"
      and rid = PyNone and h = search_started and key = "''search''" and entries = "[(''api'', 1)]"
      and error = RuntimeError,
      THEN conjunct2, THEN conjunct1, THEN mp, OF conjI [OF falsy conjI [OF named stored]]]
  note third = falsy_run_id_not_released [where ops = single_thread_ops and out = "''found''"
      and rid = PyNone and h = search_handler and serialized = "[''name'' \<mapsto> ''search'']"
      and tool_name = "''search''" and entries = "[(''api'', 1)]" and input_str = "''query''"
      and hs = search_started and release = refusing_release and error = RuntimeError,
      THEN conjunct2, THEN conjunct2, THEN conjunct1, THEN mp,
      OF conjI [OF falsy conjI [OF name conjI [OF named conjI [OF tool conjI [OF some
           conjI [OF clean search_start]]]]]]]
  note fourth = falsy_run_id_not_released [where ops = single_thread_ops and error = RuntimeError
      and rid = PyNone and h = search_started,
      THEN conjunct2, THEN conjunct2, THEN conjunct2]
  from first second third fourth nameless_end falsy named stored name tool some clean search_start
  show ?thesis by simp
qed

section \<open>Properties of the engine\<close>

text \<open>
  C1. For every \<open>SafetyCheckInput\<close>, \<open>check_safety\<close> returns \<open>is_safe = true\<close> if and
  only if the Banker's iteration finishes every agent: no need is negative and every
  agent is in the sequence (first part), where the iteration starts from
  \<open>work = available\<close> with nobody finished and each agent of the sequence is one that had
  not finished and could with the work given back by those before it, and the one with
  the smallest id among these, so that the sequence is determined (second part); the
  iteration stops only when no agent left can finish (third part); any negative need
  yields \<open>is_safe = false\<close> (fourth part). A safe answer comes with a permutation of
  the agents that passes the completion check (fifth part), and when no allocation is
  negative, any such permutation, in whatever order, makes the answer safe (sixth
  part).
\<close>

theorem check_safety_bankers:
  "(is_safe (check_safety inp) \<longleftrightarrow>
      (\<forall>a r. 0 \<le> need inp a r) \<and> set (input_agents inp) \<subseteq> set (safe_sequence (check_safety inp)))
   \<and> (\<forall>i < length (safe_sequence (check_safety inp)).
         chosen inp (work_after inp (take i (safe_sequence (check_safety inp))))
           (take i (safe_sequence (check_safety inp))) (safe_sequence (check_safety inp) ! i))
   \<and> ((\<forall>a r. 0 \<le> need inp a r) \<longrightarrow>
         (\<forall>b \<in> set (input_agents inp). b \<notin> set (safe_sequence (check_safety inp))
            \<longrightarrow> \<not> can_finish inp (work_after inp (safe_sequence (check_safety inp))) b))
   \<and> (need inp a r < 0 \<longrightarrow> \<not> is_safe (check_safety inp))
   \<and> (is_safe (check_safety inp) \<longrightarrow> completes inp (safe_sequence (check_safety inp)))
   \<and> ((\<forall>a r. 0 \<le> quantity_of (row_of (allocation inp) a) r) \<and> (\<forall>a r. 0 \<le> need inp a r)
        \<and> completes inp p \<longrightarrow> is_safe (check_safety inp))"
proof -
  have neg: "negative_need inp \<longleftrightarrow> \<not> (\<forall>a r. 0 \<le> need inp a r)"
    by (auto simp: negative_need_iff not_le)
  have unsafe: "\<not> is_safe (check_safety inp)" if "negative_need inp"
    using that by (simp add: check_safety_def)
  have "is_safe (check_safety inp) \<longleftrightarrow>
      (\<forall>a r. 0 \<le> need inp a r) \<and> set (input_agents inp) \<subseteq> set (safe_sequence (check_safety inp))"
  proof (cases "negative_need inp")
    case True
    with unsafe neg show ?thesis by simp
  next
    case False
    with check_safety_run(2) [OF False] neg show ?thesis by simp
  qed
  moreover have "need inp a r < 0 \<longrightarrow> \<not> is_safe (check_safety inp)"
    using unsafe negative_need_iff by blast
  moreover have "(\<forall>a r. 0 \<le> quantity_of (row_of (allocation inp) a) r) \<and> (\<forall>a r. 0 \<le> need inp a r)
        \<and> completes inp p \<longrightarrow> is_safe (check_safety inp)"
    using completes_safe [of inp p] neg by blast
  ultimately show ?thesis
    using safe_sequence_steps [of inp] safe_completes [of inp] neg by blast
qed

theorem check_safety_bankers_witness:
  "is_safe (check_safety base_state)
   \<and> safe_sequence (check_safety base_state) = [0, 1]
   \<and> chosen base_state (work_after base_state []) [] 0
   \<and> chosen base_state (work_after base_state [0]) [0] 1
   \<and> \<not> is_safe (check_safety unsafe_state)
   \<and> 0 \<in> set (input_agents unsafe_state)
   \<and> \<not> can_finish unsafe_state (work_after unsafe_state (safe_sequence (check_safety unsafe_state))) 0
   \<and> need over_state 0 1 < 0
   \<and> \<not> is_safe (check_safety over_state)
   \<and> completes base_state [0, 1]
   \<and> completes base_state [1, 0]"
proof -
  have safe: "is_safe (check_safety base_state)"
    by code_simp
  have seq: "safe_sequence (check_safety base_state) = [0, 1]"
    by code_simp
  note steps = check_safety_bankers [of base_state, THEN conjunct2, THEN conjunct1, unfolded seq]
  have first: "chosen base_state (work_after base_state []) [] 0"
    using steps [THEN spec, of 0] by simp
  have second: "chosen base_state (work_after base_state [0]) [0] 1"
    using steps [THEN spec, of 1] by simp
  have unsafe: "\<not> is_safe (check_safety unsafe_state)"
    by code_simp
  have agent: "0 \<in> set (input_agents unsafe_state)"
    by code_simp
  have left: "0 \<notin> set (safe_sequence (check_safety unsafe_state))"
    by code_simp
  have needs: "\<forall>a r. 0 \<le> need unsafe_state a r"
  proof (intro allI)
    fix a r
    show "0 \<le> need unsafe_state a r"
      by (cases "a = 0"; cases "a = 1"; cases "r = 1")
        (simp_all add: need_def unsafe_state_def row_of_def quantity_of_def)
  qed
  note stuck = check_safety_bankers [of unsafe_state, THEN conjunct2, THEN conjunct2, THEN conjunct1,
      THEN mp, OF needs, THEN bspec, OF agent, THEN mp, OF left]
  have negative: "need over_state 0 1 < 0"
    by code_simp
  note over = check_safety_bankers [of over_state 0 1, THEN conjunct2, THEN conjunct2, THEN conjunct2,
      THEN conjunct1, THEN mp, OF negative]
  note order = check_safety_bankers [of base_state, THEN conjunct2, THEN conjunct2, THEN conjunct2,
      THEN conjunct2, THEN conjunct1, THEN mp, OF safe, unfolded seq]
  have held: "\<forall>a r. 0 \<le> quantity_of (row_of (allocation base_state) a) r"
  proof (intro allI)
    fix a r
    show "0 \<le> quantity_of (row_of (allocation base_state) a) r"
      by (cases "a = 0"; cases "a = 1"; cases "r = 1")
        (simp_all add: base_state_def row_of_def quantity_of_def)
  qed
  have base_needs: "\<forall>a r. 0 \<le> need base_state a r"
  proof (intro allI)
    fix a r
    show "0 \<le> need base_state a r"
      by (cases "a = 0"; cases "a = 1"; cases "r = 1")
        (simp_all add: need_def base_state_def row_of_def quantity_of_def)
  qed
  have one: "can_finish base_state (work_after base_state []) 1"
    and zero: "can_finish base_state (work_after base_state [1]) 0"
    and agents: "set (input_agents base_state) = {0, 1}"
    by code_simp+
  have other: "completes base_state [1, 0]"
    unfolding completes_def
  proof (intro conjI allI impI)
    show "distinct [1, 0 :: AgentId]" by simp
    show "set [1, 0] = set (input_agents base_state)" using agents by auto
    fix i :: nat assume "i < length [1, 0 :: AgentId]"
    then consider "i = 0" | "i = 1" by fastforce
    then show "can_finish base_state (work_after base_state (take i [1, 0])) ([1, 0] ! i)"
      by cases (use one zero in simp_all)
  qed
  note any = check_safety_bankers [of base_state _ _ "[1, 0]", THEN conjunct2, THEN conjunct2,
      THEN conjunct2, THEN conjunct2, THEN conjunct2, THEN mp, OF conjI [OF held conjI [OF base_needs other]]]
  from any show ?thesis
    by (intro conjI) (rule safe seq first second unsafe agent stuck negative over order other)+
qed

text \<open>
  C4. For every \<open>SafetyCheckInput\<close>, agent \<open>a\<close>, resource \<open>r\<close> and quantity \<open>q\<close>:
  \<open>check_hypothetical(input, a, r, q)\<close> returns unsafe when \<open>q > available[r]\<close> or
  \<open>q > need[a][r]\<close>; otherwise its result equals \<open>check_safety\<close> applied to the input
  modified by \<open>available[r] -= q\<close> and \<open>allocation[a][r] += q\<close> (every other entry, the
  totals and the maxima as they were). In particular, on the state \<open>total = {R1: 10}\<close>,
  allocations \<open>A0: 3\<close> and \<open>A1: 2\<close>, maxima \<open>A0: 7\<close> and \<open>A1: 4\<close>, a hypothetical
  grant of 2 to \<open>A0\<close> is safe and a hypothetical grant of 5 to \<open>A0\<close> is unsafe.
\<close>

theorem check_hypothetical_grant:
  "(q > quantity_of (available inp) r \<or> q > need inp a r
      \<longrightarrow> \<not> is_safe (check_hypothetical inp a r q))
   \<and> (\<not> (q > quantity_of (available inp) r \<or> q > need inp a r)
      \<longrightarrow> check_hypothetical inp a r q = check_safety (grant_in_input inp a r q))
   \<and> (\<forall>r'. quantity_of (available (grant_in_input inp a r q)) r'
              = quantity_of (available inp) r' - (if r' = r then q else 0))
   \<and> (\<forall>a' r'. quantity_of (row_of (allocation (grant_in_input inp a r q)) a') r'
              = quantity_of (row_of (allocation inp) a') r' + (if a' = a \<and> r' = r then q else 0))
   \<and> total (grant_in_input inp a r q) = total inp
   \<and> max_need (grant_in_input inp a r q) = max_need inp
   \<and> is_safe (check_hypothetical base_state 0 1 2)
   \<and> \<not> is_safe (check_hypothetical base_state 0 1 5)"
proof -
  have "is_safe (check_hypothetical base_state 0 1 2)"
    by code_simp
  moreover have "\<not> is_safe (check_hypothetical base_state 0 1 5)"
    by code_simp
  ultimately show ?thesis
    by (auto simp: check_hypothetical_def grant_in_input_effect)
qed

theorem check_hypothetical_grant_witness:
  "(5 > quantity_of (available base_state) 1 \<or> 5 > need base_state 0 1)
   \<and> \<not> is_safe (check_hypothetical base_state 0 1 5)
   \<and> \<not> (2 > quantity_of (available base_state) 1 \<or> 2 > need base_state 0 1)
   \<and> check_hypothetical base_state 0 1 2 = check_safety (grant_in_input base_state 0 1 2)
   \<and> quantity_of (available (grant_in_input base_state 0 1 2)) 1 = 5 - 2
   \<and> quantity_of (row_of (allocation (grant_in_input base_state 0 1 2)) 0) 1 = 3 + 2
   \<and> safe_sequence (check_hypothetical base_state 0 1 2) = [0, 1]"
proof -
  have much: "5 > quantity_of (available base_state) 1 \<or> 5 > need base_state 0 1"
    by code_simp
  have little: "\<not> (2 > quantity_of (available base_state) 1 \<or> 2 > need base_state 0 1)"
    by code_simp
  have before: "quantity_of (available base_state) 1 = 5"
    "quantity_of (row_of (allocation base_state) 0) 1 = 3"
    by code_simp+
  have seq: "safe_sequence (check_hypothetical base_state 0 1 2) = [0, 1]"
    by code_simp
  note refused = check_hypothetical_grant [where q = 5 and inp = base_state and r = 1 and a = 0, THEN conjunct1, THEN mp, OF much]
  note run = check_hypothetical_grant [where q = 2 and inp = base_state and r = 1 and a = 0, THEN conjunct2, THEN conjunct1, THEN mp, OF little]
  note avail = check_hypothetical_grant [where q = 2 and inp = base_state and r = 1 and a = 0, THEN conjunct2, THEN conjunct2,
      THEN conjunct1, THEN spec, of 1]
  note alloc = check_hypothetical_grant [where q = 2 and inp = base_state and r = 1 and a = 0, THEN conjunct2, THEN conjunct2,
      THEN conjunct2, THEN conjunct1, THEN spec, THEN spec, of 0 1]
  from much refused little run avail alloc before seq show ?thesis
    by simp
qed









end
